theory Spec2Isabelle
  imports Complex_Main "HOL-Library.AList"
begin

section \<open>Values, documents and exceptions\<close>

text \<open>
  The endpoints of \<^verbatim>\<open>main.py\<close> work on untyped dictionaries. A document is an
  association list from field names to values, in insertion order, as a Python
  \<^verbatim>\<open>dict\<close> is. Python's \<^verbatim>\<open>float\<close> is modelled by exact rationals: the
  binary rounding of IEEE 754, infinities and NaN are outside the model. An
  \<^verbatim>\<open>ObjectId\<close> is kept as its 24 lower-case hexadecimal digits.
\<close>

datatype val =
    VNone
  | VBool bool
  | VInt int
  | VFloat rat
  | VStr string
  | VOid string
  | VList "val list"
  | VDict "(string \<times> val) list"

type_synonym doc = "(string \<times> val) list"

text \<open>
  Every \<^verbatim>\<open>raise\<close> of the source is a value of \<open>exn\<close>.
  \<^verbatim>\<open>HTTPException(status_code, detail)\<close> is a subclass of Python's
  \<^verbatim>\<open>Exception\<close>, as are the others.
\<close>

datatype exn =
    HTTPException nat string
  | InvalidId
  | TypeError
  | ValueError

subsection \<open>Python arithmetic on values\<close>

datatype num = NInt int | NFloat rat

text \<open>\<^verbatim>\<open>bool\<close> is a subclass of \<^verbatim>\<open>int\<close> in Python.\<close>

fun as_num :: "val \<Rightarrow> num option" where
  "as_num (VInt n) = Some (NInt n)"
| "as_num (VFloat x) = Some (NFloat x)"
| "as_num (VBool b) = Some (NInt (if b then 1 else 0))"
| "as_num _ = None"

fun of_num :: "num \<Rightarrow> val" where
  "of_num (NInt n) = VInt n"
| "of_num (NFloat x) = VFloat x"

fun num_rat :: "num \<Rightarrow> rat" where
  "num_rat (NInt n) = of_int n"
| "num_rat (NFloat x) = x"

fun num_mul :: "num \<Rightarrow> num \<Rightarrow> num" where
  "num_mul (NInt a) (NInt b) = NInt (a * b)"
| "num_mul a b = NFloat (num_rat a * num_rat b)"

fun num_add :: "num \<Rightarrow> num \<Rightarrow> num" where
  "num_add (NInt a) (NInt b) = NInt (a + b)"
| "num_add a b = NFloat (num_rat a + num_rat b)"

text \<open>
  \<^verbatim>\<open>a * b\<close> as the two endpoints use it. A product with a string or a list
  (sequence repetition) is not built: both callers add the product to a number
  at once, which raises \<^verbatim>\<open>TypeError\<close> for every non-numeric product.
\<close>

definition py_mul :: "val \<Rightarrow> val \<Rightarrow> exn + val" where
  "py_mul a b =
     (case (as_num a, as_num b) of
        (Some x, Some y) \<Rightarrow> Inr (of_num (num_mul x y))
      | _ \<Rightarrow> Inl TypeError)"

definition py_add :: "val \<Rightarrow> val \<Rightarrow> exn + val" where
  "py_add a b =
     (case (as_num a, as_num b) of
        (Some x, Some y) \<Rightarrow> Inr (of_num (num_add x y))
      | _ \<Rightarrow> Inl TypeError)"

text \<open>
  \<^verbatim>\<open>float(x)\<close>. A string argument is parsed by Python; the model has no
  parser and raises \<^verbatim>\<open>ValueError\<close>, which is what Python does for a string
  that is not a number.
\<close>

definition py_float :: "val \<Rightarrow> exn + val" where
  "py_float v =
     (case as_num v of
        Some x \<Rightarrow> Inr (VFloat (num_rat x))
      | None \<Rightarrow> (case v of VStr _ \<Rightarrow> Inl ValueError | _ \<Rightarrow> Inl TypeError))"

text \<open>Rounding to the nearest integer, ties to the even one, as \<^verbatim>\<open>round\<close> does.\<close>

definition round_half_even :: "rat \<Rightarrow> int" where
  "round_half_even y =
     (let f = \<lfloor>y\<rfloor>; d = y - of_int f
      in if d < 1 / 2 then f
         else if 1 / 2 < d then f + 1
         else if even f then f else f + 1)"

definition round2 :: "rat \<Rightarrow> rat" where
  "round2 x = of_int (round_half_even (x * 100)) / 100"

text \<open>
  \<^verbatim>\<open>round(x, 2)\<close>: an \<^verbatim>\<open>int\<close> is returned unchanged, a \<^verbatim>\<open>float\<close>
  is rounded to two decimals.
\<close>

definition py_round2 :: "val \<Rightarrow> exn + val" where
  "py_round2 v =
     (case as_num v of
        Some (NInt n) \<Rightarrow> Inr (VInt n)
      | Some (NFloat x) \<Rightarrow> Inr (VFloat (round2 x))
      | None \<Rightarrow> Inl TypeError)"

subsection \<open>Dictionary access\<close>

text \<open>\<^verbatim>\<open>d.get(k, default)\<close> and \<^verbatim>\<open>d.get(k)\<close>.\<close>

definition dict_get :: "doc \<Rightarrow> string \<Rightarrow> val \<Rightarrow> val" where
  "dict_get d k dflt = (case map_of d k of Some v \<Rightarrow> v | None \<Rightarrow> dflt)"

text \<open>
  \<^verbatim>\<open>sum((i.get("price_snapshot", 0) * i.get("quantity", 1)) for i in items)\<close>:
  the sum starts from the integer 0; each product is computed when the sum asks
  for it and is added at once, so the first exception in that order leaves the
  loop.
\<close>

definition line_product :: "doc \<Rightarrow> exn + val" where
  "line_product i = py_mul (dict_get i ''price_snapshot'' (VInt 0)) (dict_get i ''quantity'' (VInt 1))"

fun sum_products :: "val \<Rightarrow> doc list \<Rightarrow> exn + val" where
  "sum_products acc [] = Inr acc"
| "sum_products acc (i # rest) =
     (case line_product i of
        Inl e \<Rightarrow> Inl e
      | Inr p \<Rightarrow>
          (case py_add acc p of
             Inl e \<Rightarrow> Inl e
           | Inr acc' \<Rightarrow> sum_products acc' rest))"

section \<open>Identifiers\<close>

definition to_lower :: "char \<Rightarrow> char" where
  "to_lower c =
     (let n = (of_char c :: nat)
      in if 65 \<le> n \<and> n \<le> 90 then char_of (n + 32) else c)"

definition is_hex_digit :: "char \<Rightarrow> bool" where
  "is_hex_digit c =
     (let n = (of_char (to_lower c) :: nat)
      in (48 \<le> n \<and> n \<le> 57) \<or> (97 \<le> n \<and> n \<le> 102))"

text \<open>
  \<^verbatim>\<open>bson.ObjectId(s)\<close> for a string \<open>s\<close>: 24 hexadecimal digits, or
  \<^verbatim>\<open>InvalidId\<close>. \<^verbatim>\<open>str\<close> of the result is the lower-case form.
\<close>

definition ObjectId :: "string \<Rightarrow> exn + string" where
  "ObjectId s =
     (if length s = 24 \<and> list_all is_hex_digit s then Inr (map to_lower s)
      else Inl InvalidId)"

definition hex_digit :: "nat \<Rightarrow> char" where
  "hex_digit n = (if n < 10 then char_of (48 + n) else char_of (87 + n))"

fun hex_digits :: "nat \<Rightarrow> nat \<Rightarrow> string" where
  "hex_digits 0 n = []"
| "hex_digits (Suc k) n = hex_digits k (n div 16) @ [hex_digit (n mod 16)]"

text \<open>
  The driver gives every inserted document a new \<^verbatim>\<open>ObjectId\<close>. The model
  draws it from a counter kept with the store.
\<close>

definition fresh_oid :: "nat \<Rightarrow> string" where
  "fresh_oid n = hex_digits 24 n"

section \<open>The document store\<close>

text \<open>
  A stored document is its \<^verbatim>\<open>_id\<close> (an \<^verbatim>\<open>ObjectId\<close>) and its other fields.
  A collection is the list of its documents, oldest first.
\<close>

type_synonym stored = "string \<times> doc"

record store =
  colls :: "string \<Rightarrow> stored list"
  next_oid :: nat

text \<open>
  The module-level \<^verbatim>\<open>db\<close> is \<^verbatim>\<open>None\<close> when no connection was made:
  \<open>store option\<close>.
\<close>

text \<open>The dictionary the driver hands out for a stored document.\<close>

definition as_dict :: "stored \<Rightarrow> doc" where
  "as_dict sd = (''_id'', VOid (fst sd)) # snd sd"

text \<open>\<^verbatim>\<open>d["id"] = str(d.pop("_id"))\<close> on such a dictionary.\<close>

definition rename_id :: "stored \<Rightarrow> doc" where
  "rename_id sd = AList.update ''id'' (VStr (fst sd)) (snd sd)"

text \<open>\<^verbatim>\<open>db[c].count_documents({})\<close>\<close>

definition count_documents :: "store \<Rightarrow> string \<Rightarrow> nat" where
  "count_documents s c = length (colls s c)"

text \<open>\<^verbatim>\<open>db[c].find_one({"_id": oid})\<close>\<close>

definition find_one_by_id :: "store \<Rightarrow> string \<Rightarrow> string \<Rightarrow> stored option" where
  "find_one_by_id s c oid = find (\<lambda>sd. fst sd = oid) (colls s c)"

text \<open>\<^verbatim>\<open>db[c].find({k: v})\<close>: equality on one field.\<close>

definition find_eq :: "store \<Rightarrow> string \<Rightarrow> string \<Rightarrow> val \<Rightarrow> stored list" where
  "find_eq s c k v = filter (\<lambda>sd. map_of (snd sd) k = Some v) (colls s c)"

section \<open>GET /watches/{watch\_id}\<close>

text \<open>
  The body of the \<^verbatim>\<open>try\<close> block of \<^verbatim>\<open>get_watch\<close>, and the handler
  \<^verbatim>\<open>except Exception: raise HTTPException(400, "Invalid ID")\<close> around it, which
  catches every exception the body raises.
\<close>

definition get_watch_body :: "store \<Rightarrow> string \<Rightarrow> exn + val" where
  "get_watch_body s watch_id =
     (case ObjectId watch_id of
        Inl e \<Rightarrow> Inl e
      | Inr oid \<Rightarrow>
          (case find_one_by_id s ''watch'' oid of
             None \<Rightarrow> Inl (HTTPException 404 ''Watch not found'')
           | Some sd \<Rightarrow> Inr (VDict (rename_id sd))))"

definition get_watch :: "store option \<Rightarrow> string \<Rightarrow> exn + val" where
  "get_watch db watch_id =
     (case db of
        None \<Rightarrow> Inl (HTTPException 500 ''Database not available'')
      | Some s \<Rightarrow>
          (case get_watch_body s watch_id of
             Inl e \<Rightarrow> Inl (HTTPException 400 ''Invalid ID'')
           | Inr r \<Rightarrow> Inr r))"

definition empty_store :: store where
  "empty_store = \<lparr>colls = (\<lambda>c. []), next_oid = 0\<rparr>"

section \<open>The store adapter\<close>

text \<open>
  Modelled from the spec: \<^verbatim>\<open>create_document\<close> of \<^verbatim>\<open>database.py\<close>, which is
  not among the sources. "insert(collectionName, document) -> id: appends document,
  returns a newly generated unique identifier as a string."
\<close>

definition create_document :: "store \<Rightarrow> string \<Rightarrow> doc \<Rightarrow> string \<times> store" where
  "create_document s c d =
     (let oid = fresh_oid (next_oid s)
      in (oid, s\<lparr>colls := (colls s)(c := colls s c @ [(oid, d)]),
                 next_oid := Suc (next_oid s)\<rparr>))"

text \<open>
  Modelled from the spec: \<^verbatim>\<open>get_documents\<close> of \<^verbatim>\<open>database.py\<close>, which is
  not among the sources. "query(collectionName, filter) -> sequence<document>:
  returns all matching documents; filter supports exact-match equality on fields and
  a case-insensitive substring/pattern match specifically for the title field search
  use case." A filter value that is a dictionary with \<^verbatim>\<open>$regex\<close> asks for the
  substring match (ignoring case when \<^verbatim>\<open>$options\<close> holds \<^verbatim>\<open>i\<close>); the
  metacharacters of regular expressions are not interpreted.
\<close>

fun starts_with :: "string \<Rightarrow> string \<Rightarrow> bool" where
  "starts_with [] t = True"
| "starts_with (a # q) [] = False"
| "starts_with (a # q) (b # t) = (a = b \<and> starts_with q t)"

fun contains :: "string \<Rightarrow> string \<Rightarrow> bool" where
  "contains q [] = (q = [])"
| "contains q (b # t) = (starts_with q (b # t) \<or> contains q t)"

definition substring_match :: "string \<Rightarrow> string \<Rightarrow> val option \<Rightarrow> bool" where
  "substring_match q opts fv =
     (case fv of
        Some (VStr t) \<Rightarrow>
          (if CHR ''i'' \<in> set opts then contains (map to_lower q) (map to_lower t)
           else contains q t)
      | _ \<Rightarrow> False)"

definition field_matches :: "val option \<Rightarrow> val \<Rightarrow> bool" where
  "field_matches fv cond =
     (case cond of
        VDict ops \<Rightarrow>
          (case map_of ops ''$regex'' of
             Some (VStr q) \<Rightarrow>
               (case map_of ops ''$options'' of
                  Some (VStr opts) \<Rightarrow> substring_match q opts fv
                | _ \<Rightarrow> substring_match q [] fv)
           | _ \<Rightarrow> fv = Some cond)
      | _ \<Rightarrow> fv = Some cond)"

definition matches :: "doc \<Rightarrow> stored \<Rightarrow> bool" where
  "matches filter_obj sd = list_all (\<lambda>(k, cond). field_matches (map_of (snd sd) k) cond) filter_obj"

definition get_documents :: "store \<Rightarrow> string \<Rightarrow> doc \<Rightarrow> stored list" where
  "get_documents s c filter_obj = filter (matches filter_obj) (colls s c)"

section \<open>POST /seed\<close>

definition sample :: "doc list" where
  "sample =
     [[(''title'', VStr ''ChronoMaster Pro''),
       (''description'', VStr ''Stainless steel chronograph with sapphire crystal.''),
       (''price'', VFloat 599),
       (''brand'', VStr ''Aeternum''),
       (''collection'', VStr ''chronograph''),
       (''image'', VStr ''https://images.unsplash.com/photo-1518081461904-9acda21b54fd?q=80&w=1200&auto=format&fit=crop''),
       (''images'', VList
          [VStr ''https://images.unsplash.com/photo-1518081461904-9acda21b54fd?q=80&w=1200&auto=format&fit=crop'',
           VStr ''https://images.unsplash.com/photo-1490367532201-b9bc1dc483f6?q=80&w=1200&auto=format&fit=crop'']),
       (''in_stock'', VBool True)],
      [(''title'', VStr ''Elegance Dress 40''),
       (''description'', VStr ''Ultra-thin automatic dress watch in rose gold tone.''),
       (''price'', VFloat 749),
       (''brand'', VStr ''Novelle''),
       (''collection'', VStr ''dress''),
       (''image'', VStr ''https://images.unsplash.com/photo-1516570161787-2fd917215a3d?q=80&w=1200&auto=format&fit=crop''),
       (''images'', VList
          [VStr ''https://images.unsplash.com/photo-1516570161787-2fd917215a3d?q=80&w=1200&auto=format&fit=crop'',
           VStr ''https://images.unsplash.com/photo-1524805444758-089113d48a6d?q=80&w=1200&auto=format&fit=crop'']),
       (''in_stock'', VBool True)],
      [(''title'', VStr ''AquaSport 300''),
       (''description'', VStr ''Professional diver with ceramic bezel and 300m WR.''),
       (''price'', VFloat 899),
       (''brand'', VStr ''Pelagos''),
       (''collection'', VStr ''sport''),
       (''image'', VStr ''https://images.unsplash.com/photo-1518546305927-5a555bb7020d?q=80&w=1200&auto=format&fit=crop''),
       (''images'', VList
          [VStr ''https://images.unsplash.com/photo-1518546305927-5a555bb7020d?q=80&w=1200&auto=format&fit=crop'',
           VStr ''https://images.unsplash.com/photo-1483721310020-03333e577078?q=80&w=1200&auto=format&fit=crop'']),
       (''in_stock'', VBool True)]]"

text \<open>\<^verbatim>\<open>for doc in sample: create_document("watch", doc)\<close>\<close>

fun create_documents :: "store \<Rightarrow> string \<Rightarrow> doc list \<Rightarrow> store" where
  "create_documents s c [] = s"
| "create_documents s c (d # ds) = create_documents (snd (create_document s c d)) c ds"

definition seed_watches :: "store option \<Rightarrow> (exn + val) \<times> store option" where
  "seed_watches db =
     (case db of
        None \<Rightarrow> (Inl (HTTPException 500 ''Database not available''), None)
      | Some s \<Rightarrow>
          (if count_documents s ''watch'' > 0
           then (Inr (VDict [(''inserted'', VInt 0), (''message'', VStr ''Already seeded'')]), Some s)
           else (Inr (VDict [(''inserted'', VInt (int (length sample)))]),
                 Some (create_documents s ''watch'' sample))))"

text \<open>\<open>n\<close> calls of the endpoint, one after the other.\<close>

fun seed_times :: "nat \<Rightarrow> store option \<Rightarrow> store option" where
  "seed_times 0 db = db"
| "seed_times (Suc n) db = seed_times n (snd (seed_watches db))"

section \<open>GET /watches\<close>



section \<open>POST /cart/add\<close>

text \<open>
  The request body, and the \<^verbatim>\<open>AddToCartIn\<close> the framework builds from it:
  \<^verbatim>\<open>quantity: int = 1\<close> is any integer, 1 when the body has none.
\<close>

record AddToCartBody =
  body_cart_id :: string
  body_product_id :: string
  body_quantity :: "int option"

record AddToCartIn =
  cart_id :: string
  product_id :: string
  quantity :: int

definition parse_AddToCartIn :: "AddToCartBody \<Rightarrow> AddToCartIn" where
  "parse_AddToCartIn b =
     \<lparr>cart_id = body_cart_id b,
      product_id = body_product_id b,
      quantity = (case body_quantity b of None \<Rightarrow> 1 | Some n \<Rightarrow> n)\<rparr>"

definition add_to_cart :: "store option \<Rightarrow> AddToCartIn \<Rightarrow> (exn + val) \<times> store option" where
  "add_to_cart db payload =
     (case db of
        None \<Rightarrow> (Inl (HTTPException 500 ''Database not available''), None)
      | Some s \<Rightarrow>
          (case ObjectId (product_id payload) of
             Inl e \<Rightarrow> (Inl e, Some s)
           | Inr oid \<Rightarrow>
               (case find_one_by_id s ''watch'' oid of
                  None \<Rightarrow> (Inl (HTTPException 404 ''Product not found''), Some s)
                | Some product \<Rightarrow>
                    (case py_float (dict_get (as_dict product) ''price'' (VInt 0)) of
                       Inl e \<Rightarrow> (Inl e, Some s)
                     | Inr price \<Rightarrow>
                         (let d = [(''cart_id'', VStr (cart_id payload)),
                                   (''product_id'', VStr (product_id payload)),
                                   (''quantity'', VInt (quantity payload)),
                                   (''price_snapshot'', price),
                                   (''title_snapshot'', dict_get (as_dict product) ''title'' VNone),
                                   (''image_snapshot'', dict_get (as_dict product) ''image'' VNone)]
                          in (Inr (VDict [(''status'', VStr ''ok'')]),
                              Some (snd (create_document s ''cartitem'' d))))))))"

section \<open>GET /cart/{cart\_id}\<close>

definition get_cart :: "store option \<Rightarrow> string \<Rightarrow> exn + val" where
  "get_cart db cid =
     (case db of
        None \<Rightarrow> Inl (HTTPException 500 ''Database not available'')
      | Some s \<Rightarrow>
          (let items = map rename_id (get_documents s ''cartitem'' [(''cart_id'', VStr cid)])
           in case sum_products (VInt 0) items of
                Inl e \<Rightarrow> Inl e
              | Inr tot \<Rightarrow>
                  (case py_round2 tot of
                     Inl e \<Rightarrow> Inl e
                   | Inr r \<Rightarrow> Inr (VDict [(''items'', VList (map VDict items)), (''total'', r)]))))"

section \<open>POST /checkout\<close>

record CheckoutIn =
  checkout_cart_id :: string
  email :: "string option"

definition checkout :: "store option \<Rightarrow> CheckoutIn \<Rightarrow> (exn + val) \<times> store option" where
  "checkout db payload =
     (case db of
        None \<Rightarrow> (Inl (HTTPException 500 ''Database not available''), None)
      | Some s \<Rightarrow>
          (let found = find_eq s ''cartitem'' ''cart_id'' (VStr (checkout_cart_id payload))
           in if found = [] then (Inl (HTTPException 400 ''Cart is empty''), Some s)
              else
                (let cart_items = map rename_id found
                 in case sum_products (VInt 0) cart_items of
                      Inl e \<Rightarrow> (Inl e, Some s)
                    | Inr subtotal \<Rightarrow>
                        (case py_float subtotal of
                           Inl e \<Rightarrow> (Inl e, Some s)
                         | Inr f \<Rightarrow>
                             (case py_round2 f of
                                Inl e \<Rightarrow> (Inl e, Some s)
                              | Inr r \<Rightarrow>
                                  (let order_doc =
                                         [(''cart_id'', VStr (checkout_cart_id payload)),
                                          (''items'', VList (map VDict cart_items)),
                                          (''subtotal'', r),
                                          (''status'', VStr ''paid''),
                                          (''email'', (case email payload of
                                                        None \<Rightarrow> VNone
                                                      | Some e \<Rightarrow> VStr e))];
                                       created = create_document s ''order'' order_doc
                                   in (Inr (VDict [(''status'', VStr ''paid''),
                                                   (''order_id'', VStr (fst created))]),
                                       Some (snd created))))))))"

section \<open>Reference quantities and sample stores\<close>

text \<open>
  The total as the specification words it: the sum over the items of price snapshot
  times quantity, rounded to two decimals, for items that carry both as numbers.
\<close>

definition has_numbers :: "doc \<Rightarrow> bool" where
  "has_numbers i =
     (case (map_of i ''price_snapshot'', map_of i ''quantity'') of
        (Some a, Some b) \<Rightarrow> as_num a \<noteq> None \<and> as_num b \<noteq> None
      | _ \<Rightarrow> False)"



definition seeded :: store where
  "seeded = create_documents empty_store ''watch'' sample"

definition cart_line :: stored where
  "cart_line =
     (''00000000000000000000000a'',
      [(''cart_id'', VStr ''c1''),
       (''product_id'', VStr ''000000000000000000000000''),
       (''quantity'', VInt 2),
       (''price_snapshot'', VFloat 599),
       (''title_snapshot'', VStr ''ChronoMaster Pro''),
       (''image_snapshot'', VNone)])"

definition cart_store :: store where
  "cart_store = \<lparr>colls = (\<lambda>c. [])(''cartitem'' := [cart_line]), next_oid = 11\<rparr>"

definition checkout_c1 :: CheckoutIn where
  "checkout_c1 = \<lparr>checkout_cart_id = ''c1'', email = None\<rparr>"

definition checkout_c2 :: CheckoutIn where
  "checkout_c2 = \<lparr>checkout_cart_id = ''c2'', email = None\<rparr>"

definition watch_count :: "store option \<Rightarrow> nat" where
  "watch_count db = (case db of None \<Rightarrow> 0 | Some s \<Rightarrow> count_documents s ''watch'')"


definition add_zero_body :: AddToCartBody where
  "add_zero_body =
     \<lparr>body_cart_id = ''c1'',
      body_product_id = ''000000000000000000000000'',
      body_quantity = Some 0\<rparr>"

definition add_default_body :: AddToCartBody where
  "add_default_body =
     \<lparr>body_cart_id = ''c1'',
      body_product_id = ''000000000000000000000000'',
      body_quantity = None\<rparr>"




section \<open>Properties\<close>

subsection \<open>Fetching one watch\<close>

lemma get_watch_malformed:
  "ObjectId watch_id = Inl InvalidId \<Longrightarrow>
   get_watch (Some s) watch_id = Inl (HTTPException 400 ''Invalid ID'')"
  by (simp add: get_watch_def get_watch_body_def)

text \<open>
  C1. A watch id that is well-formed but names no watch is answered with
  400 "Invalid ID": the 404 raised inside the \<^verbatim>\<open>try\<close> block is caught by the
  block's own handler. Here: 24 zeros against an empty watch collection.
\<close>

theorem get_watch_absent_is_400:
  "ObjectId ''000000000000000000000000'' = Inr ''000000000000000000000000'' \<and>
   find_one_by_id empty_store ''watch'' ''000000000000000000000000'' = None \<and>
   get_watch_body empty_store ''000000000000000000000000''
     = Inl (HTTPException 404 ''Watch not found'') \<and>
   get_watch (Some empty_store) ''000000000000000000000000''
     = Inl (HTTPException 400 ''Invalid ID'')"
  by (simp add: get_watch_def get_watch_body_def ObjectId_def find_one_by_id_def
      empty_store_def is_hex_digit_def to_lower_def)

subsection \<open>Sums of price times quantity\<close>












lemma matches_eq: "matches [(k, VStr v)] sd = (map_of (snd sd) k = Some (VStr v))"
  by (simp add: matches_def field_matches_def)

lemma get_documents_eq:
  "get_documents s c [(k, VStr v)] = find_eq s c k (VStr v)"
  by (simp add: get_documents_def find_eq_def matches_eq cong: filter_cong)





subsection \<open>Cart and checkout\<close>

text \<open>
  C3. With the store available, checkout of a cart id that no cart item carries
  raises 400 "Cart is empty" and leaves the store, the order collection included, as it
  was.
\<close>

theorem checkout_empty_cart:
  "find_eq s ''cartitem'' ''cart_id'' (VStr (checkout_cart_id p)) = [] \<Longrightarrow>
   checkout (Some s) p = (Inl (HTTPException 400 ''Cart is empty''), Some s)"
  by (simp add: checkout_def)




text \<open>
  C7. A checkout that succeeds changes one collection only: the order collection
  gains one record at its end. The cart item collection is what it was.
\<close>

theorem checkout_keeps_cart:
  assumes "checkout (Some s) p = (Inr r, db')"
  shows "\<exists>s' ord. db' = Some s' \<and>
           colls s' = (colls s)(''order'' := colls s ''order'' @ [ord]) \<and>
           colls s' ''cartitem'' = colls s ''cartitem''"
  using assms
  by (fastforce simp: checkout_def create_document_def Let_def
      split: if_splits sum.splits)

text \<open>
  C10. With the store available, a cart id that no stored cart item carries gets a
  successful response with no items and total 0.
\<close>

theorem get_cart_unknown:
  assumes "\<forall>sd \<in> set (colls s ''cartitem''). map_of (snd sd) ''cart_id'' \<noteq> Some (VStr cid)"
  shows "get_cart (Some s) cid = Inr (VDict [(''items'', VList []), (''total'', VInt 0)])"
proof -
  have "get_documents s ''cartitem'' [(''cart_id'', VStr cid)] = []"
    using assms by (auto simp: get_documents_eq find_eq_def filter_empty_conv)
  then show ?thesis by (simp add: get_cart_def py_round2_def)
qed

subsection \<open>The sample stores\<close>

lemma fresh_oid_0: "fresh_oid 0 = ''000000000000000000000000''"
  by code_simp

lemma fresh_oid_1: "fresh_oid 1 = ''000000000000000000000001''"
  by code_simp

lemma fresh_oid_2: "fresh_oid 2 = ''000000000000000000000002''"
  by code_simp

lemma fresh_oid_11: "fresh_oid 11 = ''00000000000000000000000b''"
  by code_simp

lemma seeded_watch:
  "colls seeded ''watch'' =
     zip [''000000000000000000000000'', ''000000000000000000000001'',
          ''000000000000000000000002''] sample"
  by code_simp

lemma seeded_next_oid: "next_oid seeded = 3"
  by code_simp

text \<open>The cart c2 of the sample store is empty.\<close>

theorem checkout_empty_cart_witness:
  "find_eq cart_store ''cartitem'' ''cart_id'' (VStr (checkout_cart_id checkout_c2)) = [] \<and>
   checkout (Some cart_store) checkout_c2
     = (Inl (HTTPException 400 ''Cart is empty''), Some cart_store) \<and>
   colls cart_store ''order'' = []"
proof -
  have f: "find_eq cart_store ''cartitem'' ''cart_id'' (VStr (checkout_cart_id checkout_c2)) = []"
    by code_simp
  have "colls cart_store ''order'' = []" by code_simp
  with f checkout_empty_cart [OF f] show ?thesis by simp
qed


text \<open>Checkout of cart c1 of the sample store.\<close>

theorem checkout_keeps_cart_witness:
  "fst (checkout (Some cart_store) checkout_c1)
     = Inr (VDict [(''status'', VStr ''paid''), (''order_id'', VStr ''00000000000000000000000b'')]) \<and>
   colls (the (snd (checkout (Some cart_store) checkout_c1))) ''cartitem'' = [cart_line] \<and>
   colls cart_store ''cartitem'' = [cart_line] \<and>
   length (colls (the (snd (checkout (Some cart_store) checkout_c1))) ''order'') = 1 \<and>
   colls cart_store ''order'' = []"
proof -
  have r: "fst (checkout (Some cart_store) checkout_c1)
     = Inr (VDict [(''status'', VStr ''paid''), (''order_id'', VStr ''00000000000000000000000b'')])"
    by code_simp
  then have "checkout (Some cart_store) checkout_c1
     = (Inr (VDict [(''status'', VStr ''paid''), (''order_id'', VStr ''00000000000000000000000b'')]),
        snd (checkout (Some cart_store) checkout_c1))"
    by (metis prod.collapse)
  from checkout_keeps_cart [OF this] obtain s' ord where
    s': "snd (checkout (Some cart_store) checkout_c1) = Some s'"
        "colls s' = (colls cart_store)(''order'' := colls cart_store ''order'' @ [ord])"
        "colls s' ''cartitem'' = colls cart_store ''cartitem''" by blast
  have c: "colls cart_store ''cartitem'' = [cart_line]" by code_simp
  have ord: "colls cart_store ''order'' = []" by code_simp
  show ?thesis using r s' c ord by simp
qed


text \<open>A cart id nobody used, against the sample store.\<close>

theorem get_cart_unknown_witness:
  "map (\<lambda>sd. map_of (snd sd) ''cart_id'') (colls cart_store ''cartitem'') = [Some (VStr ''c1'')] \<and>
   get_cart (Some cart_store) ''nobody'' = Inr (VDict [(''items'', VList []), (''total'', VInt 0)])"
proof -
  have c: "map (\<lambda>sd. map_of (snd sd) ''cart_id'') (colls cart_store ''cartitem'') = [Some (VStr ''c1'')]"
    by code_simp
  have "colls cart_store ''cartitem'' = [cart_line]" by code_simp
  moreover have "map_of (snd cart_line) ''cart_id'' \<noteq> Some (VStr ''nobody'')"
    by (simp add: cart_line_def)
  ultimately have "\<forall>sd \<in> set (colls cart_store ''cartitem''). map_of (snd sd) ''cart_id'' \<noteq> Some (VStr ''nobody'')"
    by simp
  from get_cart_unknown [OF this] c show ?thesis by simp
qed

subsection \<open>Seeding\<close>

lemma colls_create_documents_same:
  "map snd (colls (create_documents s c ds) c) = map snd (colls s c) @ ds"
  by (induction ds arbitrary: s) (simp_all add: create_document_def Let_def)

lemma colls_create_documents_other:
  "c' \<noteq> c \<Longrightarrow> colls (create_documents s c ds) c' = colls s c'"
  by (induction ds arbitrary: s) (simp_all add: create_document_def Let_def)

lemma length_sample: "length sample = 3"
  by (simp add: sample_def)

lemma seed_watches_nonempty:
  "0 < count_documents s ''watch'' \<Longrightarrow>
   seed_watches (Some s) =
     (Inr (VDict [(''inserted'', VInt 0), (''message'', VStr ''Already seeded'')]), Some s)"
  by (simp add: seed_watches_def)

lemma seed_watches_empty:
  "count_documents s ''watch'' = 0 \<Longrightarrow>
   seed_watches (Some s) =
     (Inr (VDict [(''inserted'', VInt 3)]), Some (create_documents s ''watch'' sample))"
  by (simp add: seed_watches_def length_sample)

lemma count_after_seed:
  "count_documents s ''watch'' = 0 \<Longrightarrow>
   count_documents (create_documents s ''watch'' sample) ''watch'' = 3"
proof -
  assume "count_documents s ''watch'' = 0"
  then have "colls s ''watch'' = []" by (simp add: count_documents_def)
  then have "map snd (colls (create_documents s ''watch'' sample) ''watch'') = sample"
    by (simp add: colls_create_documents_same)
  then have "length (map snd (colls (create_documents s ''watch'' sample) ''watch'')) = 3"
    by (simp add: length_sample)
  then show ?thesis by (simp add: count_documents_def)
qed

lemma seed_times_nonempty:
  "0 < count_documents s ''watch'' \<Longrightarrow> seed_times n (Some s) = Some s"
  by (induction n) (simp_all add: seed_watches_nonempty)

lemma seed_times_Suc:
  "seed_times (Suc n) (Some s) = snd (seed_watches (Some s))"
proof (cases "0 < count_documents s ''watch''")
  case True
  then show ?thesis by (simp add: seed_watches_nonempty seed_times_nonempty)
next
  case False
  then have e: "count_documents s ''watch'' = 0" by simp
  have "0 < count_documents (create_documents s ''watch'' sample) ''watch''"
    using count_after_seed [OF e] by simp
  then show ?thesis
    by (simp add: seed_watches_empty [OF e] seed_times_nonempty)
qed

text \<open>
  C4. With the store available: seeding a non-empty watch collection inserts nothing
  and leaves the store as it was; seeding an empty one inserts the 3 sample records;
  and for every n of at least 1, n seed calls in a row leave the same store, so the same
  watch collection size, as one call.
\<close>

theorem seed_idempotent:
  "(0 < count_documents s ''watch'' \<longrightarrow>
      seed_watches (Some s) =
        (Inr (VDict [(''inserted'', VInt 0), (''message'', VStr ''Already seeded'')]), Some s)) \<and>
   (count_documents s ''watch'' = 0 \<longrightarrow>
      (\<exists>s'. seed_watches (Some s) = (Inr (VDict [(''inserted'', VInt 3)]), Some s') \<and>
            map snd (colls s' ''watch'') = sample \<and>
            count_documents s' ''watch'' = 3)) \<and>
   (1 \<le> n \<longrightarrow>
      seed_times n (Some s) = seed_times 1 (Some s) \<and>
      watch_count (seed_times n (Some s)) = watch_count (seed_times 1 (Some s)))"
proof (intro conjI impI)
  assume "0 < count_documents s ''watch''"
  then show "seed_watches (Some s) =
        (Inr (VDict [(''inserted'', VInt 0), (''message'', VStr ''Already seeded'')]), Some s)"
    by (rule seed_watches_nonempty)
next
  assume e: "count_documents s ''watch'' = 0"
  then have "colls s ''watch'' = []" by (simp add: count_documents_def)
  then have "map snd (colls (create_documents s ''watch'' sample) ''watch'') = sample"
    by (simp add: colls_create_documents_same)
  with seed_watches_empty [OF e] count_after_seed [OF e]
  show "\<exists>s'. seed_watches (Some s) = (Inr (VDict [(''inserted'', VInt 3)]), Some s') \<and>
            map snd (colls s' ''watch'') = sample \<and>
            count_documents s' ''watch'' = 3"
    by blast
next
  assume "1 \<le> n"
  then obtain m where "n = Suc m" by (cases n) simp_all
  then show "seed_times n (Some s) = seed_times 1 (Some s)"
    using seed_times_Suc [of m s] seed_times_Suc [of 0 s] by simp
  then show "watch_count (seed_times n (Some s)) = watch_count (seed_times 1 (Some s))"
    by simp
qed

text \<open>
  Seeding the empty store, seeding the seeded store, and three calls in a row.
\<close>

theorem seed_idempotent_witness:
  "count_documents empty_store ''watch'' = 0 \<and>
   seed_watches (Some empty_store) = (Inr (VDict [(''inserted'', VInt 3)]), Some seeded) \<and>
   map snd (colls seeded ''watch'') = sample \<and>
   0 < count_documents seeded ''watch'' \<and>
   seed_watches (Some seeded) =
     (Inr (VDict [(''inserted'', VInt 0), (''message'', VStr ''Already seeded'')]), Some seeded) \<and>
   (1::nat) \<le> 3 \<and>
   seed_times 3 (Some empty_store) = Some seeded \<and>
   watch_count (seed_times 3 (Some empty_store)) = 3 \<and>
   watch_count (seed_times 1 (Some empty_store)) = 3"
proof -
  have e: "count_documents empty_store ''watch'' = 0"
    by (simp add: count_documents_def empty_store_def)
  have ne: "0 < count_documents seeded ''watch''"
    by (simp add: count_documents_def seeded_watch length_sample)
  have one: "seed_times 1 (Some empty_store) = Some seeded"
    using e by (simp add: seed_watches_def seeded_def)
  have cnt: "watch_count (Some seeded) = 3"
    by (simp add: watch_count_def count_documents_def seeded_watch length_sample)
  have le: "(1::nat) \<le> 3" by simp
  note a = seed_idempotent [of empty_store 3]
  note b = seed_idempotent [of seeded 3]
  show ?thesis using a b e ne one cnt le
    by (simp add: seeded_def seed_watches_empty [OF e])
qed

subsection \<open>Quantities of stored cart items\<close>

text \<open>
  A request body without a quantity gives quantity 1.
\<close>

lemma parse_default_quantity:
  "body_quantity b = None \<Longrightarrow> quantity (parse_AddToCartIn b) = 1"
  by (simp add: parse_AddToCartIn_def)

lemma add_to_cart_stores_quantity:
  assumes "add_to_cart (Some s) p = (Inr r, db')"
  shows "\<exists>s' d. db' = Some s' \<and>
           colls s' ''cartitem'' = colls s ''cartitem'' @ [(fresh_oid (next_oid s), d)] \<and>
           map_of d ''quantity'' = Some (VInt (quantity p))"
  using assms
  by (auto simp: add_to_cart_def create_document_def Let_def
      split: sum.splits option.splits)

lemma add_to_cart_default_quantity:
  "quantity (parse_AddToCartIn add_default_body) = 1 \<and>
   map (\<lambda>sd. map_of (snd sd) ''quantity'')
       (colls (the (snd (add_to_cart (Some seeded) (parse_AddToCartIn add_default_body)))) ''cartitem'')
     = [Some (VInt 1)]"
  by code_simp

text \<open>
  Every cart item that \<^verbatim>\<open>add_to_cart\<close> stores carries a numeric price snapshot and
  quantity: a cart item collection of such items stays one.
\<close>

lemma add_to_cart_keeps_numbers:
  assumes "list_all has_numbers (map snd (colls s ''cartitem''))"
    and "add_to_cart (Some s) p = (r, Some s')"
  shows "list_all has_numbers (map snd (colls s' ''cartitem''))"
  using assms
  by (auto simp: add_to_cart_def create_document_def Let_def py_float_def has_numbers_def
      split: sum.splits option.splits val.splits)

text \<open>
  C2. \<^verbatim>\<open>AddToCartIn\<close> takes any integer as quantity, and \<^verbatim>\<open>add_to_cart\<close> stores it
  as it came: a request with quantity 0 for the first seeded watch succeeds and leaves a
  cart item with quantity 0, against \<^verbatim>\<open>quantity: int = Field(1, ge=1)\<close> of the
  \<^verbatim>\<open>CartItem\<close> schema.
\<close>

theorem add_to_cart_stores_quantity_zero:
  "quantity (parse_AddToCartIn add_zero_body) = 0 \<and>
   fst (add_to_cart (Some seeded) (parse_AddToCartIn add_zero_body))
     = Inr (VDict [(''status'', VStr ''ok'')]) \<and>
   map (\<lambda>sd. map_of (snd sd) ''quantity'')
       (colls (the (snd (add_to_cart (Some seeded) (parse_AddToCartIn add_zero_body)))) ''cartitem'')
     = [Some (VInt 0)]"
  by code_simp

subsection \<open>Searching by title\<close>








subsection \<open>Adding the same product twice\<close>







end
